theory Spec2Isabelle
  imports Complex_Main
begin

section \<open>The project board of \<open>src/app.ts\<close>\<close>

text \<open>
  A shallow embedding of the state management, the validation helper and the drag-over
  handler of \<open>src/app.ts\<close>.

  JavaScript objects are shared by reference: \<open>Array.prototype.find\<close> returns the
  object stored in the array, and \<open>slice()\<close> copies the array but not the objects in it.
  So \<open>Project\<close> objects live in an explicit object heap, in allocation order, and a
  reference is the index of its object. An array of projects is a list of references.
\<close>

subsection \<open>Projects\<close>

text \<open>
  A JavaScript \<open>number\<close>: \<open>NaN\<close>, the two infinities, or a finite value. Every
  finite double is a rational number; the two zeros compare equal and print alike, and are
  one value here.
\<close>

datatype number = NaN | PosInfinity | NegInfinity | Finite rat

datatype ProjectStatus = Active | Finished

text \<open>\<open>class Project\<close>: the field \<open>id\<close> is written \<open>id'\<close>.\<close>

record Project =
  id' :: string
  title :: string
  description :: string
  people :: number
  status :: ProjectStatus

type_synonym ref = nat

subsection \<open>Listeners and the store\<close>

text \<open>
  What a listener can reach: the heap of \<open>Project\<close> objects and the state of its own
  component (\<open>env\<close>). The store object itself is not part of it: a listener that calls
  back into the store, or that throws, is outside this model.
\<close>

record 'e world =
  heap :: "Project list"
  env :: 'e

text \<open>
  \<open>type Listener<T> = (items: T[]) => void\<close>. The listener receives an array and may
  assign to its slots and to the objects it reaches: it returns the array as it left it,
  and the world as it left it.
\<close>

type_synonym ('t, 'w) Listener = "'t list \<Rightarrow> 'w \<Rightarrow> 't list \<times> 'w"

text \<open>\<open>class State<T>\<close> and \<open>class ProjectState extends State<Project>\<close>.\<close>

record ('t, 'w) State =
  listeners :: "('t, 'w) Listener list"

record 'e ProjectState = "(ref, 'e world) State" +
  projects :: "ref list"

text \<open>The object a constructor call \<open>new ProjectState()\<close> returns.\<close>

definition new_ProjectState :: "'e ProjectState" where
  "new_ProjectState = \<lparr>listeners = [], projects = []\<rparr>"

text \<open>\<open>Array.prototype.push\<close> and \<open>Array.prototype.slice\<close> with no argument.\<close>

definition push :: "'a list \<Rightarrow> 'a \<Rightarrow> 'a list" where
  "push xs x = xs @ [x]"

definition slice :: "'a list \<Rightarrow> 'a list" where
  "slice xs = take (length xs) (drop 0 xs)"

definition addListener ::
  "('t, 'w) Listener \<Rightarrow> ('t, 'w, 'z) State_scheme \<Rightarrow> ('t, 'w, 'z) State_scheme" where
  "addListener listenerFn this = this\<lparr>listeners := push (listeners this) listenerFn\<rparr>"

text \<open>
  \<open>updateListeners\<close>: the \<open>for ... of\<close> loop over \<open>this.listeners\<close>. Each listener
  gets a new array from \<open>slice()\<close>; what it leaves in that array is dropped when the call
  returns, and \<open>this.projects\<close> is never assigned.
\<close>

primrec updateListeners_loop ::
  "(ref, 'e world) Listener list \<Rightarrow> 'e ProjectState \<Rightarrow> 'e world \<Rightarrow> 'e world" where
  "updateListeners_loop [] this w = w"
| "updateListeners_loop (listenerFn # rest) this w =
     updateListeners_loop rest this (snd (listenerFn (slice (projects this)) w))"

definition updateListeners :: "'e ProjectState \<Rightarrow> 'e world \<Rightarrow> 'e ProjectState \<times> 'e world" where
  "updateListeners this w = (this, updateListeners_loop (listeners this) this w)"

text \<open>
  \<open>addProject\<close>. The first argument is the string \<open>Math.random().toString()\<close> evaluates
  to in this call. \<open>new Project(...)\<close> allocates the object at the next free address.
\<close>

definition addProject ::
  "string \<Rightarrow> string \<Rightarrow> string \<Rightarrow> number \<Rightarrow> 'e ProjectState \<Rightarrow> 'e world
    \<Rightarrow> 'e ProjectState \<times> 'e world" where
  "addProject random title' description' numOfPeople this w =
     (let newProject = length (heap w);
          w = w\<lparr>heap := heap w @
                [\<lparr>id' = random, title = title', description = description',
                  people = numOfPeople, status = Active\<rparr>]\<rparr>;
          this = this\<lparr>projects := push (projects this) newProject\<rparr>
      in updateListeners this w)"

text \<open>
  \<open>moveProject\<close>. \<open>find\<close> yields the first project of the array whose id is
  \<open>projectId\<close>, or \<open>undefined\<close>; the assignment writes to the object found.
\<close>

definition moveProject ::
  "string \<Rightarrow> ProjectStatus \<Rightarrow> 'e ProjectState \<Rightarrow> 'e world \<Rightarrow> 'e ProjectState \<times> 'e world" where
  "moveProject projectId newStatus this w =
     (let project = List.find (\<lambda>prj. id' (heap w ! prj) = projectId) (projects this);
          w = (case project of
                 Some prj \<Rightarrow>
                   if status (heap w ! prj) \<noteq> newStatus
                   then w\<lparr>heap := (heap w)[prj := (heap w ! prj)\<lparr>status := newStatus\<rparr>]\<rparr>
                   else w
               | None \<Rightarrow> w)
      in updateListeners this w)"

text \<open>
  What the store keeps of its projects: every reference of the sequence is an allocated
  object, and no two projects of the sequence have the same id.
\<close>

definition store_invariant :: "'e ProjectState \<Rightarrow> 'e world \<Rightarrow> bool" where
  "store_invariant this w =
     ((\<forall>prj\<in>set (projects this). prj < length (heap w))
      \<and> distinct (map (\<lambda>prj. id' (heap w ! prj)) (projects this)))"

text \<open>A listener that leaves every \<open>Project\<close> object as it found it.\<close>

definition readonly :: "(ref, 'e world) Listener \<Rightarrow> bool" where
  "readonly listenerFn = (\<forall>items w. heap (snd (listenerFn items w)) = heap w)"

text \<open>
  The listener each \<open>ProjectList\<close> registers in \<open>configure\<close>. The two lists of the
  page are told apart by their \<open>type\<close>; \<open>env\<close> holds the \<open>assignedProjects\<close> of
  each. \<open>renderProjects\<close> only writes to the document.
\<close>

datatype ListType = active | finished

definition configure_listener :: "ListType \<Rightarrow> (ref, (ListType \<Rightarrow> ref list) world) Listener" where
  "configure_listener type' projects' w =
     (let relevantProjects =
            filter (\<lambda>prj. if type' = active then status (heap w ! prj) = Active
                         else status (heap w ! prj) = Finished) projects'
      in (projects', w\<lparr>env := (env w)(type' := relevantProjects)\<rparr>))"

text \<open>
  The store as the page sets it up: the two \<open>ProjectList\<close> constructors each register
  their listener, the active list first. \<open>sample_store\<close> and \<open>sample_world\<close> are
  that store with two projects in it, one in each list.
\<close>

definition board :: "(ListType \<Rightarrow> ref list) ProjectState" where
  "board = addListener (configure_listener finished)
             (addListener (configure_listener active) new_ProjectState)"

definition empty_world :: "(ListType \<Rightarrow> ref list) world" where
  "empty_world = \<lparr>heap = [], env = (\<lambda>_. [])\<rparr>"

definition sample_store :: "(ListType \<Rightarrow> ref list) ProjectState" where
  "sample_store = board\<lparr>projects := [0, 1]\<rparr>"

definition sample_world :: "(ListType \<Rightarrow> ref list) world" where
  "sample_world =
     \<lparr>heap =
        [\<lparr>id' = ''0.5'', title = ''Build API'', description = ''Implement REST endpoints'',
          people = Finite 3, status = Active\<rparr>,
         \<lparr>id' = ''0.25'', title = ''Write docs'', description = ''User guide'',
          people = Finite 2, status = Finished\<rparr>],
      env = (\<lambda>_. [])(active := [0], finished := [1])\<rparr>"

text \<open>
  A listener that only keeps a log of its calls: its number and the array it was given.
  \<^verbatim>\<open>items => { log.push([k, items]); }\<close>
\<close>

definition recorder :: "nat \<Rightarrow> (ref, (nat \<times> ref list) list world) Listener" where
  "recorder k items w = (items, w\<lparr>env := env w @ [(k, items)]\<rparr>)"

text \<open>
  A listener the source does not have but \<open>addListener\<close> accepts:
  \<^verbatim>\<open>items => { for (const prj of items) prj.status = ProjectStatus.Finished; items.length = 0; }\<close>
\<close>

definition finish_all_listener :: "(ref, 'e world) Listener" where
  "finish_all_listener items w =
     ([], w\<lparr>heap := fold (\<lambda>prj h. h[prj := (h ! prj)\<lparr>status := Finished\<rparr>]) items (heap w)\<rparr>)"

subsection \<open>The singleton accessor\<close>

text \<open>
  \<open>ProjectState\<close> objects have an identity: they live in a heap of their own, and the
  static field \<open>ProjectState.instance\<close> (written \<open>instance'\<close>) holds a reference or is
  \<open>undefined\<close>. No statement of the source assigns to it.
\<close>

record 'e program =
  objects :: "'e ProjectState list"
  instance' :: "ref option"

definition initial_program :: "'e program" where
  "initial_program = \<lparr>objects = [], instance' = None\<rparr>"

definition getInstance :: "'e program \<Rightarrow> ref \<times> 'e program" where
  "getInstance p =
     (case instance' p of
        Some this_instance \<Rightarrow> (this_instance, p)
      | None \<Rightarrow> (length (objects p), p\<lparr>objects := objects p @ [new_ProjectState]\<rparr>))"

subsection \<open>Validation\<close>

text \<open>
  \<open>Number.prototype.toString\<close> after ECMA-262, Number::toString with radix 10. For a
  positive finite \<open>x\<close> the standard takes integers \<open>n\<close>, \<open>k\<close> and \<open>s\<close> with \<open>s\<close> of
  \<open>k\<close> digits, \<open>k\<close> as small as possible, and \<open>s * 10 ^ (n - k)\<close> the value; which
  ones they are depends on the floating-point representation, so the choice is the
  parameter \<open>shortest\<close>, about which nothing is assumed.
\<close>

definition digit_char :: "nat \<Rightarrow> char" where
  "digit_char d = ''0123456789'' ! d"

fun digits_of :: "nat \<Rightarrow> string" where
  "digits_of n =
     (if n < 10 then [digit_char n] else digits_of (n div 10) @ [digit_char (n mod 10)])"

declare digits_of.simps [simp del]

definition finite_toString :: "(rat \<Rightarrow> nat \<times> int) \<Rightarrow> rat \<Rightarrow> string" where
  "finite_toString shortest x =
     (let (s, n) = shortest x;
          ds = digits_of s;
          k = int (length ds)
      in if - 5 \<le> n \<and> n \<le> 21 then
           (if n \<ge> k then ds @ replicate (nat (n - k)) CHR ''0''
            else if n > 0 then take (nat n) ds @ ''.'' @ drop (nat n) ds
            else ''0.'' @ replicate (nat (- n)) CHR ''0'' @ ds)
         else
           (let e = n - 1;
                c = (if e < 0 then ''-'' else ''+'');
                es = digits_of (nat \<bar>e\<bar>)
            in if k = 1 then ds @ ''e'' @ c @ es
               else take 1 ds @ ''.'' @ drop 1 ds @ ''e'' @ c @ es))"

definition number_toString :: "(rat \<Rightarrow> nat \<times> int) \<Rightarrow> number \<Rightarrow> string" where
  "number_toString shortest x =
     (case x of
        NaN \<Rightarrow> ''NaN''
      | PosInfinity \<Rightarrow> ''Infinity''
      | NegInfinity \<Rightarrow> ''-Infinity''
      | Finite q \<Rightarrow>
          if q = 0 then ''0''
          else if q < 0 then ''-'' @ finite_toString shortest (- q)
          else finite_toString shortest q)"

text \<open>
  \<open>String.prototype.trim\<close> strips white space and line terminators from both ends.
  A \<open>char\<close> is a code unit up to U+00FF: of the characters \<open>trim\<close> strips, these are
  TAB, LF, VT, FF, CR, SP and NBSP.
\<close>

definition isWhiteSpace :: "char \<Rightarrow> bool" where
  "isWhiteSpace c =
     (c \<in> set [CHR 0x09, CHR 0x0A, CHR 0x0B, CHR 0x0C, CHR 0x0D, CHR 0x20, CHR 0xA0])"

definition trim :: "string \<Rightarrow> string" where
  "trim s = rev (dropWhile isWhiteSpace (rev (dropWhile isWhiteSpace s)))"

text \<open>
  The comparisons \<open><=\<close> and \<open>>=\<close> on numbers: false as soon as one side is \<open>NaN\<close>.
\<close>

fun num_le :: "number \<Rightarrow> number \<Rightarrow> bool" where
  "num_le NaN _ = False"
| "num_le _ NaN = False"
| "num_le NegInfinity _ = True"
| "num_le _ PosInfinity = True"
| "num_le PosInfinity _ = False"
| "num_le _ NegInfinity = False"
| "num_le (Finite a) (Finite b) = (a \<le> b)"

definition num_ge :: "number \<Rightarrow> number \<Rightarrow> bool" where
  "num_ge a b = num_le b a"

text \<open>
  \<open>interface Validatable\<close>: \<open>value\<close> (written \<open>value'\<close>) is a string or a number, an
  optional field that is absent is \<open>None\<close>; \<open>min\<close> and \<open>max\<close> are written \<open>min'\<close>
  and \<open>max'\<close>.
\<close>

datatype string_or_number = Str string | Num number

record Validatable =
  value' :: string_or_number
  required :: "bool option"
  minLength :: "number option"
  maxLength :: "number option"
  min' :: "number option"
  max' :: "number option"

definition toString :: "(rat \<Rightarrow> nat \<times> int) \<Rightarrow> string_or_number \<Rightarrow> string" where
  "toString shortest v = (case v of Str s \<Rightarrow> s | Num x \<Rightarrow> number_toString shortest x)"

text \<open>The \<open>length\<close> of a string, as the number it is in JavaScript.\<close>

definition string_length :: "string \<Rightarrow> number" where
  "string_length s = Finite (of_nat (length s))"

definition validate :: "(rat \<Rightarrow> nat \<times> int) \<Rightarrow> Validatable \<Rightarrow> bool" where
  "validate shortest validatableInput =
     (let isValid = True;
          isValid =
            (if required validatableInput = Some True
             then isValid \<and> length (trim (toString shortest (value' validatableInput))) \<noteq> 0
             else isValid);
          isValid =
            (case (minLength validatableInput, value' validatableInput) of
               (Some m, Str s) \<Rightarrow> isValid \<and> num_ge (string_length s) m
             | _ \<Rightarrow> isValid);
          isValid =
            (case (maxLength validatableInput, value' validatableInput) of
               (Some m, Str s) \<Rightarrow> isValid \<and> num_le (string_length s) m
             | _ \<Rightarrow> isValid);
          isValid =
            (case (min' validatableInput, value' validatableInput) of
               (Some m, Num x) \<Rightarrow> isValid \<and> num_ge x m
             | _ \<Rightarrow> isValid);
          isValid =
            (case (max' validatableInput, value' validatableInput) of
               (Some m, Num x) \<Rightarrow> isValid \<and> num_le x m
             | _ \<Rightarrow> isValid)
      in isValid)"

subsection \<open>The drag-over handler\<close>

text \<open>
  Of a \<open>DragEvent\<close> the handler reads \<open>dataTransfer\<close> (an object or \<open>null\<close>) and its
  \<open>types\<close>, and it calls \<open>preventDefault\<close>, which on a cancelable event such as
  \<open>dragover\<close> sets \<open>defaultPrevented\<close>. Of the list element it changes the class list.
\<close>

record DataTransfer =
  types :: "string list"

record DragEvent =
  dataTransfer :: "DataTransfer option"
  defaultPrevented :: bool

text \<open>Reading an array at an index: \<open>undefined\<close> (\<open>None\<close>) past its end.\<close>

definition at_index :: "'a list \<Rightarrow> nat \<Rightarrow> 'a option" where
  "at_index xs i = (if i < length xs then Some (xs ! i) else None)"

definition preventDefault :: "DragEvent \<Rightarrow> DragEvent" where
  "preventDefault event = event\<lparr>defaultPrevented := True\<rparr>"

text \<open>\<open>classList.add\<close>: a token already in the list is not added again.\<close>

definition classList_add :: "string list \<Rightarrow> string \<Rightarrow> string list" where
  "classList_add classList token = (if token \<in> set classList then classList else classList @ [token])"

definition dragOverHandler :: "DragEvent \<Rightarrow> string list \<Rightarrow> DragEvent \<times> string list" where
  "dragOverHandler event listEl =
     (case dataTransfer event of
        Some dt \<Rightarrow>
          if at_index (types dt) 0 = Some ''text/plain''
          then (preventDefault event, classList_add listEl ''droppable'')
          else (event, listEl)
      | None \<Rightarrow> (event, listEl))"

section \<open>Properties\<close>

subsection \<open>Copies and loops\<close>

lemma slice_copy: "slice xs = xs"
  by (simp add: slice_def)

lemma updateListeners_loop_fold:
  "updateListeners_loop ls this w = fold (\<lambda>l w. snd (l (projects this) w)) ls w"
  by (induction ls arbitrary: w) (simp_all add: slice_copy)

subsection \<open>The store\<close>

lemma readonly_fold:
  "\<forall>l\<in>set ls. readonly l \<Longrightarrow> heap (fold (\<lambda>l w. snd (l items w)) ls w) = heap w"
  by (induction ls arbitrary: w) (simp_all add: readonly_def)

lemma find_distinct:
  "distinct (map f xs) \<Longrightarrow> x \<in> set xs \<Longrightarrow> List.find (\<lambda>y. f y = f x) xs = Some x"
  by (induction xs) auto

lemma readonly_configure_listener: "readonly (configure_listener type')"
  by (simp add: readonly_def configure_listener_def)

text \<open>
  The invariant holds of a new store, and \<open>addProject\<close> with an id not yet in use and
  \<open>moveProject\<close> keep it, when no listener writes to a \<open>Project\<close>.
\<close>

lemma store_invariant_new: "store_invariant new_ProjectState w"
  by (simp add: store_invariant_def new_ProjectState_def)

lemma store_invariant_addProject:
  assumes "store_invariant this w"
    and "random \<notin> set (map (\<lambda>prj. id' (heap w ! prj)) (projects this))"
    and "\<forall>listenerFn\<in>set (listeners this). readonly listenerFn"
  shows "store_invariant (fst (addProject random title' description' numOfPeople this w))
           (snd (addProject random title' description' numOfPeople this w))"
proof -
  let ?created = "\<lparr>id' = random, title = title', description = description',
                   people = numOfPeople, status = Active\<rparr>"
  have old: "(heap w @ [?created]) ! prj = heap w ! prj" if "prj \<in> set (projects this)" for prj
    using assms(1) that by (simp add: store_invariant_def nth_append)
  have ids: "map (\<lambda>prj. id' ((heap w @ [?created]) ! prj)) (projects this)
      = map (\<lambda>prj. id' (heap w ! prj)) (projects this)"
    by (rule map_cong [OF refl]) (simp add: old)
  have projs: "projects (fst (addProject random title' description' numOfPeople this w))
      = projects this @ [length (heap w)]"
    by (simp add: addProject_def updateListeners_def push_def Let_def)
  have heap': "heap (snd (addProject random title' description' numOfPeople this w))
      = heap w @ [?created]"
    using assms(3)
    by (simp add: addProject_def updateListeners_def push_def Let_def updateListeners_loop_fold
        readonly_fold)
  have "\<forall>prj\<in>set (projects this). prj < length (heap w)"
    using assms(1) by (simp add: store_invariant_def)
  moreover have "distinct (map (\<lambda>prj. id' (heap w ! prj)) (projects this))"
    using assms(1) by (simp add: store_invariant_def)
  ultimately show ?thesis
    unfolding store_invariant_def projs heap'
    using assms(2) by (simp add: ids less_Suc_eq)
qed

lemma store_invariant_moveProject:
  assumes "store_invariant this w"
    and "\<forall>listenerFn\<in>set (listeners this). readonly listenerFn"
  shows "store_invariant (fst (moveProject projectId newStatus this w))
           (snd (moveProject projectId newStatus this w))"
proof -
  have "id' (h[m := (h ! m)\<lparr>status := newStatus\<rparr>] ! prj) = id' (h ! prj)"
    for h :: "Project list" and m prj
    by (cases "m < length h") (simp_all add: nth_list_update list_update_beyond)
  then show ?thesis
    using assms
    by (simp add: store_invariant_def moveProject_def updateListeners_def Let_def
        updateListeners_loop_fold readonly_fold split: option.splits)
qed

text \<open>
  With listeners that log their calls, the log after \<open>addProject\<close> has one more entry
  for each listener, in registration order, each with the sequence that ends with the new
  project.
\<close>

lemma recorders_log:
  "env (fold (\<lambda>listenerFn w. snd (listenerFn items w)) (map recorder ks) w)
     = env w @ map (\<lambda>k. (k, items)) ks"
  by (induction ks arbitrary: w) (simp_all add: recorder_def)

lemma addProject_recorders:
  "env (snd (addProject random title' description' numOfPeople
               \<lparr>listeners = map recorder ks, projects = ps\<rparr> w))
     = env w @ map (\<lambda>k. (k, ps @ [length (heap w)])) ks"
  by (simp add: addProject_def updateListeners_def push_def Let_def updateListeners_loop_fold
      recorders_log)

lemmas sample_defs =
  sample_store_def sample_world_def board_def addListener_def new_ProjectState_def push_def
  configure_listener_def

text \<open>
  C1. \<open>addProject\<close> appends one reference to the store's sequence, the reference of a
  new \<open>Project\<close> with the given fields and status \<open>Active\<close>; it then runs every
  registered listener once, in registration order, each on the sequence that ends with
  the new project. When no listener writes to a \<open>Project\<close>, the new project is still
  \<open>Active\<close> when the call returns.
\<close>

theorem addProject_appends_and_notifies:
  "let (this', w') = addProject random title' description' numOfPeople this w;
       newProject = length (heap w);
       items = projects this @ [newProject];
       created = \<lparr>id' = random, title = title', description = description',
                  people = numOfPeople, status = Active\<rparr>
   in projects this' = items
      \<and> length (projects this') = length (projects this) + 1
      \<and> last (projects this') = newProject
      \<and> listeners this' = listeners this
      \<and> w' = fold (\<lambda>listenerFn w. snd (listenerFn items w)) (listeners this)
                (w\<lparr>heap := heap w @ [created]\<rparr>)
      \<and> ((\<forall>listenerFn\<in>set (listeners this). readonly listenerFn) \<longrightarrow>
            heap w' = heap w @ [created] \<and> status (heap w' ! newProject) = Active)"
  by (simp add: addProject_def updateListeners_def push_def Let_def
      updateListeners_loop_fold readonly_fold)

text \<open>The page's store, empty, receives its first project.\<close>

theorem addProject_appends_and_notifies_witness:
  "readonly (configure_listener active) \<and> readonly (configure_listener finished)
   \<and> (let (this', w') =
            addProject ''0.5'' ''Build API'' ''Implement REST endpoints'' (Finite 3) board empty_world
       in projects this' = [0]
          \<and> heap w' = [\<lparr>id' = ''0.5'', title = ''Build API'',
                         description = ''Implement REST endpoints'', people = Finite 3,
                         status = Active\<rparr>]
          \<and> env w' active = [0] \<and> env w' finished = [])"
  using addProject_appends_and_notifies
    [of "''0.5''" "''Build API''" "''Implement REST endpoints''" "Finite 3" board empty_world]
  by (simp add: readonly_configure_listener board_def empty_world_def addListener_def
      new_ProjectState_def push_def configure_listener_def Let_def split: prod.splits)


text \<open>
  C2, as stated, fails: the listeners run after the assignment, on the store's own
  \<open>Project\<close> objects. In a store with one project and the listener
  \<open>finish_all_listener\<close>, the invariant holds and the project has the id asked for;
  \<open>moveProject\<close> with status \<open>Active\<close> returns with the project \<open>Finished\<close>,
  whether it was \<open>Active\<close> or \<open>Finished\<close> before the call.
\<close>

theorem moveProject_listener_overwrites:
  "store_invariant
     \<lparr>listeners = [finish_all_listener], projects = [0]\<rparr>
     \<lparr>heap = [\<lparr>id' = ''0.5'', title = ''Build API'', description = ''Implement REST endpoints'',
                people = Finite 3, status = Active\<rparr>], env = ()\<rparr>
   \<and> status (heap (snd (moveProject ''0.5'' Active
        \<lparr>listeners = [finish_all_listener], projects = [0]\<rparr>
        \<lparr>heap = [\<lparr>id' = ''0.5'', title = ''Build API'',
                   description = ''Implement REST endpoints'',
                   people = Finite 3, status = Active\<rparr>], env = ()\<rparr>)) ! 0) = Finished
   \<and> status (heap (snd (moveProject ''0.5'' Active
        \<lparr>listeners = [finish_all_listener], projects = [0]\<rparr>
        \<lparr>heap = [\<lparr>id' = ''0.5'', title = ''Build API'',
                   description = ''Implement REST endpoints'',
                   people = Finite 3, status = Finished\<rparr>], env = ()\<rparr>)) ! 0) = Finished"
  by (simp add: store_invariant_def moveProject_def updateListeners_def slice_copy
      finish_all_listener_def)

text \<open>
  C2, amended. For a project of a store that satisfies its invariant, \<open>moveProject\<close>
  with the project's id assigns the status asked for, then runs every registered listener
  once, in order, on the store's sequence: whether the status was already the one asked
  for or not. When no listener writes to a \<open>Project\<close>, the project has that status when
  the call returns.
\<close>

theorem moveProject_sets_status:
  assumes "store_invariant this w"
    and "prj \<in> set (projects this)"
  shows "let (this', w') = moveProject (id' (heap w ! prj)) newStatus this w;
             moved = w\<lparr>heap := (heap w)[prj := (heap w ! prj)\<lparr>status := newStatus\<rparr>]\<rparr>
         in this' = this
            \<and> status (heap moved ! prj) = newStatus
            \<and> w' = fold (\<lambda>listenerFn w. snd (listenerFn (projects this) w)) (listeners this) moved
            \<and> ((\<forall>listenerFn\<in>set (listeners this). readonly listenerFn) \<longrightarrow>
                  heap w' = heap moved \<and> status (heap w' ! prj) = newStatus
                  \<and> id' (heap w' ! prj) = id' (heap w ! prj))"
proof -
  have allocated: "prj < length (heap w)"
    using assms by (simp add: store_invariant_def)
  have "distinct (map (\<lambda>r. id' (heap w ! r)) (projects this))"
    using assms(1) by (simp add: store_invariant_def)
  then have found:
    "List.find (\<lambda>r. id' (heap w ! r) = id' (heap w ! prj)) (projects this) = Some prj"
    using assms(2) by (rule find_distinct)
  have same: "(heap w)[prj := (heap w ! prj)\<lparr>status := newStatus\<rparr>] = heap w"
    if "status (heap w ! prj) = newStatus"
  proof -
    have "(heap w ! prj)\<lparr>status := newStatus\<rparr> = heap w ! prj"
      using that by simp
    then show ?thesis by (simp only: list_update_id)
  qed
  show ?thesis
    using allocated same
    by (simp add: moveProject_def found updateListeners_def Let_def
        updateListeners_loop_fold readonly_fold)
qed

text \<open>The first sample project is dropped on the finished list.\<close>

theorem moveProject_sets_status_witness:
  "store_invariant sample_store sample_world \<and> 0 \<in> set (projects sample_store)
   \<and> id' (heap sample_world ! 0) = ''0.5'' \<and> status (heap sample_world ! 0) = Active
   \<and> readonly (configure_listener active) \<and> readonly (configure_listener finished)
   \<and> (let (this', w') = moveProject ''0.5'' Finished sample_store sample_world
       in this' = sample_store \<and> status (heap w' ! 0) = Finished \<and> id' (heap w' ! 0) = ''0.5''
          \<and> env w' active = [] \<and> env w' finished = [0, 1])"
  using moveProject_sets_status [of sample_store sample_world 0 Finished]
  by (simp add: readonly_configure_listener store_invariant_def sample_defs Let_def
      split: prod.splits)

text \<open>
  C6. With an id that no project of the store has, \<open>moveProject\<close> changes neither the
  store nor any \<open>Project\<close>, and still runs every registered listener once, in order,
  on the store's sequence.
\<close>

theorem moveProject_unmatched_id:
  assumes "\<forall>prj\<in>set (projects this). id' (heap w ! prj) \<noteq> projectId"
  shows "let (this', w') = moveProject projectId newStatus this w
         in this' = this
            \<and> w' = fold (\<lambda>listenerFn w. snd (listenerFn (projects this) w)) (listeners this) w
            \<and> ((\<forall>listenerFn\<in>set (listeners this). readonly listenerFn) \<longrightarrow> heap w' = heap w)"
proof -
  have "List.find (\<lambda>prj. id' (heap w ! prj) = projectId) (projects this) = None"
    using assms by (simp add: find_None_iff)
  then show ?thesis
    by (simp add: moveProject_def updateListeners_def Let_def updateListeners_loop_fold
        readonly_fold)
qed

text \<open>An id that neither sample project has.\<close>

theorem moveProject_unmatched_id_witness:
  "''0.75'' \<notin> set (map (\<lambda>prj. id' (heap sample_world ! prj)) (projects sample_store))
   \<and> readonly (configure_listener active) \<and> readonly (configure_listener finished)
   \<and> (let (this', w') = moveProject ''0.75'' Finished sample_store sample_world
       in this' = sample_store \<and> heap w' = heap sample_world
          \<and> env w' active = [0] \<and> env w' finished = [1])"
  using moveProject_unmatched_id [of sample_store sample_world "''0.75''" Finished]
  by (simp add: readonly_configure_listener sample_defs Let_def split: prod.splits)

text \<open>
  C7. When some project matches, \<open>matched\<close> being the one \<open>find\<close> yields,
  \<open>moveProject\<close> leaves the store and its sequence as they are, and its own write
  leaves the heap as long as it was, every other \<open>Project\<close> as it was, and of the
  matched project its id, title, description and people. The listeners then run on that
  heap; when none of them writes to a \<open>Project\<close>, it is the heap the call returns.
\<close>

theorem moveProject_frame:
  assumes "List.find (\<lambda>prj. id' (heap w ! prj) = projectId) (projects this) = Some matched"
  shows "let (this', w') = moveProject projectId newStatus this w;
             moved = w\<lparr>heap := (heap w)[matched := (heap w ! matched)\<lparr>status := newStatus\<rparr>]\<rparr>
         in this' = this \<and> projects this' = projects this
            \<and> length (projects this') = length (projects this)
            \<and> w' = fold (\<lambda>listenerFn w. snd (listenerFn (projects this) w)) (listeners this) moved
            \<and> length (heap moved) = length (heap w)
            \<and> (\<forall>r. r \<noteq> matched \<longrightarrow> heap moved ! r = heap w ! r)
            \<and> id' (heap moved ! matched) = id' (heap w ! matched)
            \<and> title (heap moved ! matched) = title (heap w ! matched)
            \<and> description (heap moved ! matched) = description (heap w ! matched)
            \<and> people (heap moved ! matched) = people (heap w ! matched)
            \<and> ((\<forall>listenerFn\<in>set (listeners this). readonly listenerFn) \<longrightarrow>
                  heap w' = heap moved)"
proof -
  have same: "(heap w)[matched := (heap w ! matched)\<lparr>status := newStatus\<rparr>] = heap w"
    if "status (heap w ! matched) = newStatus"
  proof -
    have "(heap w ! matched)\<lparr>status := newStatus\<rparr> = heap w ! matched"
      using that by simp
    then show ?thesis by (simp only: list_update_id)
  qed
  have upd: "f ((heap w)[matched := (heap w ! matched)\<lparr>status := newStatus\<rparr>] ! matched)
      = f (heap w ! matched)"
    if "\<And>p s. f (p\<lparr>status := s\<rparr>) = f p" for f :: "Project \<Rightarrow> 'x"
    using that by (cases "matched < length (heap w)") (simp_all add: list_update_beyond)
  show ?thesis
    using assms same
    by (simp add: moveProject_def updateListeners_def Let_def updateListeners_loop_fold
        readonly_fold upd)
qed

text \<open>The second sample project is dropped on the active list.\<close>

theorem moveProject_frame_witness:
  "List.find (\<lambda>prj. id' (heap sample_world ! prj) = ''0.25'') (projects sample_store) = Some 1
   \<and> readonly (configure_listener active) \<and> readonly (configure_listener finished)
   \<and> (let (this', w') = moveProject ''0.25'' Active sample_store sample_world
       in projects this' = [0, 1] \<and> heap w' ! 0 = heap sample_world ! 0
          \<and> heap w' ! 1 = (heap sample_world ! 1)\<lparr>status := Active\<rparr>
          \<and> env w' active = [0, 1] \<and> env w' finished = [])"
  using moveProject_frame [of sample_world "''0.25''" sample_store 1 Active]
  by (simp add: readonly_configure_listener sample_defs Let_def split: prod.splits)

text \<open>
  C3, as stated, fails: the array a listener receives is a copy, the \<open>Project\<close> objects
  in it are the store's own. One notification of a store with one \<open>Active\<close> project and
  the listener \<open>finish_all_listener\<close> leaves the store's sequence as it was, although
  the listener emptied its array, and leaves the store's project \<open>Finished\<close>.
\<close>

theorem snapshot_elements_shared:
  "projects (fst (updateListeners
      \<lparr>listeners = [finish_all_listener], projects = [0]\<rparr>
      \<lparr>heap = [\<lparr>id' = ''0.5'', title = ''Build API'', description = ''Implement REST endpoints'',
                 people = Finite 3, status = Active\<rparr>], env = ()\<rparr>)) = [0]
   \<and> heap (snd (updateListeners
      \<lparr>listeners = [finish_all_listener], projects = [0]\<rparr>
      \<lparr>heap = [\<lparr>id' = ''0.5'', title = ''Build API'', description = ''Implement REST endpoints'',
                 people = Finite 3, status = Active\<rparr>], env = ()\<rparr>))
     = [\<lparr>id' = ''0.5'', title = ''Build API'', description = ''Implement REST endpoints'',
         people = Finite 3, status = Finished\<rparr>]"
  by (simp add: updateListeners_def slice_copy finish_all_listener_def)

text \<open>
  C3, amended. A notification hands each listener a shallow copy: whatever the listeners
  do, the store is unchanged and every listener receives the store's own sequence of
  references; the \<open>Project\<close> objects are unchanged when no listener writes to a
  \<open>Project\<close>.
\<close>

theorem updateListeners_shallow_copy:
  "fst (updateListeners this w) = this
   \<and> snd (updateListeners this w)
      = fold (\<lambda>listenerFn w. snd (listenerFn (projects this) w)) (listeners this) w
   \<and> ((\<forall>listenerFn\<in>set (listeners this). readonly listenerFn) \<longrightarrow>
         heap (snd (updateListeners this w)) = heap w)"
  by (simp add: updateListeners_def updateListeners_loop_fold readonly_fold)

text \<open>A notification of the sample store: both lists are filtered anew.\<close>

theorem updateListeners_shallow_copy_witness:
  "readonly (configure_listener active) \<and> readonly (configure_listener finished)
   \<and> fst (updateListeners sample_store sample_world) = sample_store
   \<and> heap (snd (updateListeners sample_store sample_world)) = heap sample_world
   \<and> env (snd (updateListeners sample_store sample_world)) active = [0]
   \<and> env (snd (updateListeners sample_store sample_world)) finished = [1]"
  using updateListeners_shallow_copy [of sample_store sample_world]
  by (simp add: readonly_configure_listener sample_defs)

text \<open>
  C9. \<open>addListener\<close> does not look for the listener in the list: registered twice, a
  listener is in it twice, and one \<open>addProject\<close> or \<open>moveProject\<close> runs it twice
  more than without the two registrations, after the listeners registered before it.
\<close>

theorem addListener_twice:
  "listeners (addListener f (addListener f this)) = listeners this @ [f, f]
   \<and> snd (addProject random title' description' numOfPeople (addListener f (addListener f this)) w)
      = (let items = projects this @ [length (heap w)]
         in snd (f items (snd (f items
              (snd (addProject random title' description' numOfPeople this w))))))
   \<and> snd (moveProject projectId newStatus (addListener f (addListener f this)) w)
      = (let items = projects this
         in snd (f items (snd (f items (snd (moveProject projectId newStatus this w))))))"
  by (simp add: addListener_def push_def addProject_def moveProject_def updateListeners_def
      Let_def updateListeners_loop_fold)

subsection \<open>The singleton accessor\<close>

lemma instance_stays_empty:
  "instance' p = None \<Longrightarrow>
     ((\<lambda>p. snd (getInstance p)) ^^ k) p
       = p\<lparr>objects := objects p @ replicate k new_ProjectState\<rparr>"
proof (induction k)
  case 0
  then show ?case by simp
next
  case (Suc k)
  then show ?case
    by (simp add: getInstance_def replicate_append_same)
qed

text \<open>
  C4. While the static slot is empty, \<open>getInstance\<close> allocates a new, empty
  \<open>ProjectState\<close> and returns it, and the slot stays empty. So any two calls, with
  \<open>k\<close> calls between them, return two different objects, and replacing the state of
  either leaves the other as it was.
\<close>

theorem getInstance_never_caches:
  assumes "instance' p = None"
  shows "let (first, p1) = getInstance p;
             (second, p2) = getInstance (((\<lambda>p. snd (getInstance p)) ^^ k) p1)
         in instance' p1 = None \<and> instance' p2 = None
            \<and> first = length (objects p) \<and> objects p1 = objects p @ [new_ProjectState]
            \<and> second = length (objects p) + 1 + k
            \<and> first \<noteq> second
            \<and> objects p2 ! first = new_ProjectState \<and> objects p2 ! second = new_ProjectState
            \<and> (\<forall>this. (objects p2)[first := this] ! second = objects p2 ! second)
            \<and> (\<forall>this. (objects p2)[second := this] ! first = objects p2 ! first)"
proof -
  let ?p1 = "p\<lparr>objects := objects p @ [new_ProjectState]\<rparr>"
  have p1: "getInstance p = (length (objects p), ?p1)"
    using assms by (simp add: getInstance_def)
  have "instance' ?p1 = None" using assms by simp
  then have later: "((\<lambda>p. snd (getInstance p)) ^^ k) ?p1
      = ?p1\<lparr>objects := objects ?p1 @ replicate k new_ProjectState\<rparr>"
    by (rule instance_stays_empty)
  have p2: "getInstance (((\<lambda>p. snd (getInstance p)) ^^ k) ?p1)
      = (length (objects p) + 1 + k,
         p\<lparr>objects := objects p @ new_ProjectState # replicate (Suc k) new_ProjectState\<rparr>)"
    unfolding later using assms by (simp add: getInstance_def replicate_append_same)
  have nth: "(new_ProjectState # replicate k new_ProjectState) ! k
      = (new_ProjectState :: 'a ProjectState)"
    using nth_replicate [of k "Suc k" "new_ProjectState :: 'a ProjectState"] by simp
  show ?thesis
    using assms by (simp add: p1 p2 nth_append nth)
qed

text \<open>Three calls when the program starts: the first and the third.\<close>

theorem getInstance_never_caches_witness:
  "instance' (initial_program :: unit program) = None
   \<and> fst (getInstance (initial_program :: unit program)) = 0
   \<and> fst (getInstance (snd (getInstance (snd (getInstance
        (initial_program :: unit program)))))) = 2
   \<and> instance' (snd (getInstance (snd (getInstance (snd (getInstance
        (initial_program :: unit program))))))) = None
   \<and> objects (snd (getInstance (snd (getInstance (snd (getInstance
        (initial_program :: unit program)))))))
      = [new_ProjectState, new_ProjectState, new_ProjectState]"
  using getInstance_never_caches [of "initial_program :: unit program" 1]
  by (simp add: initial_program_def getInstance_def)

subsection \<open>The drag-over handler\<close>

text \<open>
  C5. The handler prevents the default and adds \<open>droppable\<close> when the first entry of
  the type list is \<open>text/plain\<close>. In every other case it does nothing: no
  \<open>dataTransfer\<close>, an empty type list, or another first entry, whether or not
  \<open>text/plain\<close> stands later in the list.
\<close>

theorem dragOverHandler_first_type:
  "(dataTransfer event = Some dt \<and> at_index (types dt) 0 = Some ''text/plain'' \<longrightarrow>
      dragOverHandler event listEl =
        (event\<lparr>defaultPrevented := True\<rparr>,
         if ''droppable'' \<in> set listEl then listEl else listEl @ [''droppable'']))
   \<and> (dataTransfer event = Some dt \<and> at_index (types dt) 0 \<noteq> Some ''text/plain'' \<longrightarrow>
      dragOverHandler event listEl = (event, listEl))
   \<and> (dataTransfer event = Some dt \<and> types dt = t # ts \<and> t \<noteq> ''text/plain'' \<longrightarrow>
      dragOverHandler event listEl = (event, listEl))
   \<and> (dataTransfer event = None \<longrightarrow> dragOverHandler event listEl = (event, listEl))"
  by (simp add: dragOverHandler_def preventDefault_def classList_add_def at_index_def)

text \<open>
  A plain-text drag, a drag that offers \<open>text/plain\<close> second, one that offers nothing,
  and an event without \<open>dataTransfer\<close>.
\<close>

theorem dragOverHandler_first_type_witness:
  "dragOverHandler \<lparr>dataTransfer = Some \<lparr>types = [''text/plain'']\<rparr>, defaultPrevented = False\<rparr> []
     = (\<lparr>dataTransfer = Some \<lparr>types = [''text/plain'']\<rparr>, defaultPrevented = True\<rparr>,
        [''droppable''])
   \<and> dragOverHandler
       \<lparr>dataTransfer = Some \<lparr>types = [''text/html'', ''text/plain'']\<rparr>, defaultPrevented = False\<rparr> []
     = (\<lparr>dataTransfer = Some \<lparr>types = [''text/html'', ''text/plain'']\<rparr>,
         defaultPrevented = False\<rparr>, [])
   \<and> dragOverHandler \<lparr>dataTransfer = Some \<lparr>types = []\<rparr>, defaultPrevented = False\<rparr> []
     = (\<lparr>dataTransfer = Some \<lparr>types = []\<rparr>, defaultPrevented = False\<rparr>, [])
   \<and> dragOverHandler \<lparr>dataTransfer = None, defaultPrevented = False\<rparr> []
     = (\<lparr>dataTransfer = None, defaultPrevented = False\<rparr>, [])"
  using
    dragOverHandler_first_type
      [of "\<lparr>dataTransfer = Some \<lparr>types = [''text/plain'']\<rparr>, defaultPrevented = False\<rparr>"
          "\<lparr>types = [''text/plain'']\<rparr>" "[]" "''text/plain''" "[]"]
    dragOverHandler_first_type
      [of "\<lparr>dataTransfer = Some \<lparr>types = [''text/html'', ''text/plain'']\<rparr>,
            defaultPrevented = False\<rparr>"
          "\<lparr>types = [''text/html'', ''text/plain'']\<rparr>" "[]" "''text/html''" "[''text/plain'']"]
    dragOverHandler_first_type
      [of "\<lparr>dataTransfer = Some \<lparr>types = []\<rparr>, defaultPrevented = False\<rparr>"
          "\<lparr>types = []\<rparr>" "[]" "''text/html''" "[]"]
    dragOverHandler_first_type
      [of "\<lparr>dataTransfer = None, defaultPrevented = False\<rparr>"
          "\<lparr>types = []\<rparr>" "[]" "''text/html''" "[]"]
  by (simp add: at_index_def)

subsection \<open>Validation\<close>

lemma trim_Nil_iff: "trim s = [] \<longleftrightarrow> (\<forall>c\<in>set s. isWhiteSpace c)"
proof
  assume "trim s = []"
  then have a: "\<forall>x\<in>set (dropWhile isWhiteSpace s). isWhiteSpace x"
    by (simp add: trim_def)
  have "dropWhile isWhiteSpace s = []"
  proof (rule ccontr)
    assume n: "dropWhile isWhiteSpace s \<noteq> []"
    then have "\<not> isWhiteSpace (hd (dropWhile isWhiteSpace s))" by (rule hd_dropWhile)
    moreover have "hd (dropWhile isWhiteSpace s) \<in> set (dropWhile isWhiteSpace s)"
      using n by simp
    ultimately show False using a by blast
  qed
  then show "\<forall>c\<in>set s. isWhiteSpace c" by simp
next
  assume "\<forall>c\<in>set s. isWhiteSpace c"
  then have d: "dropWhile isWhiteSpace s = []" by simp
  show "trim s = []" unfolding trim_def d by simp
qed

lemma digit_char_not_ws: "d < 10 \<Longrightarrow> \<not> isWhiteSpace (digit_char d)"
proof -
  assume "d < 10"
  then have "d \<in> {0,1,2,3,4,5,6,7,8,9}" by auto
  then show ?thesis by (auto simp: digit_char_def isWhiteSpace_def)
qed

lemma digits_of_last: "digit_char (n mod 10) \<in> set (digits_of n)"
  by (induction n rule: digits_of.induct) (subst digits_of.simps, simp)

lemma digits_of_not_blank: "\<exists>c\<in>set (digits_of n). \<not> isWhiteSpace c"
  using digits_of_last [of n] digit_char_not_ws [of "n mod 10"] by auto

lemma finite_toString_not_blank: "trim (finite_toString shortest x) \<noteq> []"
proof -
  obtain s n where sn: "shortest x = (s, n)" by (cases "shortest x")
  have ws: "\<not> isWhiteSpace CHR ''.''" "\<not> isWhiteSpace CHR ''0''" "\<not> isWhiteSpace CHR ''e''"
    by (simp_all add: isWhiteSpace_def)
  show ?thesis
    using digits_of_not_blank [of s] ws
    by (auto simp: finite_toString_def sn Let_def trim_Nil_iff)
qed

lemma number_toString_not_blank: "trim (number_toString shortest x) \<noteq> []"
proof (cases x)
  case (Finite q)
  have "\<not> isWhiteSpace CHR ''0''" by (simp add: isWhiteSpace_def)
  then have z: "trim ''0'' \<noteq> []" by (simp add: trim_Nil_iff)
  have m: "trim (''-'' @ s) \<noteq> []" for s by (simp add: trim_Nil_iff isWhiteSpace_def)
  show ?thesis using Finite z m finite_toString_not_blank
    by (simp add: number_toString_def del: append.simps)
qed (simp_all add: number_toString_def trim_Nil_iff isWhiteSpace_def)

text \<open>
  C8. The four test vectors of the validation gate: an empty required string is rejected,
  \<open>"ab"\<close> with \<open>minLength: 5\<close> is rejected, \<open>3\<close> with \<open>min: 1\<close> and
  \<open>max: 5\<close> is accepted, \<open>6\<close> with \<open>min: 1\<close> and \<open>max: 5\<close> is rejected.
\<close>

theorem validate_test_vectors:
  "validate shortest
     \<lparr>value' = Str '''', required = Some True, minLength = None, maxLength = None,
      min' = None, max' = None\<rparr> = False
   \<and> validate shortest
     \<lparr>value' = Str ''ab'', required = Some True, minLength = Some (Finite 5),
      maxLength = None, min' = None, max' = None\<rparr> = False
   \<and> validate shortest
     \<lparr>value' = Num (Finite 3), required = Some True, minLength = None, maxLength = None,
      min' = Some (Finite 1), max' = Some (Finite 5)\<rparr> = True
   \<and> validate shortest
     \<lparr>value' = Num (Finite 6), required = None, minLength = None, maxLength = None,
      min' = Some (Finite 1), max' = Some (Finite 5)\<rparr> = False"
proof -
  have blank: "trim [] = []" and ab: "trim ''ab'' \<noteq> []"
    by (simp_all add: trim_def isWhiteSpace_def)
  show ?thesis
    by (simp add: validate_def toString_def number_toString_not_blank blank ab
        string_length_def num_ge_def)
qed

text \<open>
  C10. For every number \<open>n\<close> the trimmed string form is not empty, so the
  \<open>required\<close> rule holds; whatever the other options are, \<open>validate\<close> of a
  number is decided by the \<open>min\<close> and \<open>max\<close> rules alone.
\<close>

theorem validate_number_required:
  "length (trim (toString shortest (Num n))) \<noteq> 0
   \<and> validate shortest (v\<lparr>value' := Num n\<rparr>) =
       ((case min' v of Some m \<Rightarrow> num_ge n m | None \<Rightarrow> True)
        \<and> (case max' v of Some m \<Rightarrow> num_le n m | None \<Rightarrow> True))"
  by (simp add: validate_def toString_def number_toString_not_blank split: option.splits)

end
